theory Spec2Isabelle
  imports Main
begin

section \<open>The HTTPS development server of https-server.py\<close>

text \<open>
  The program is one Python file: a request handler class
  \<^verbatim>\<open>CORSHTTPRequestHandler\<close>, which subclasses the standard library's
  \<^verbatim>\<open>http.server.SimpleHTTPRequestHandler\<close> and overrides \<^verbatim>\<open>end_headers\<close> and
  \<^verbatim>\<open>do_OPTIONS\<close>, and a \<^verbatim>\<open>main\<close> function that checks for the certificate files,
  builds an \<^verbatim>\<open>HTTPServer\<close>, wraps its socket in TLS and runs the accept loop.

  What the handler does is decided by the methods it inherits, so the embedding
  has two layers. The methods of https-server.py are translated line by line.
  The inherited methods of \<^verbatim>\<open>http.server\<close> and \<^verbatim>\<open>socketserver\<close> (CPython 3.11/3.12,
  \<^verbatim>\<open>Lib/http/server.py\<close>, \<^verbatim>\<open>Lib/socketserver.py\<close>) that these call, or that call
  them, are translated from the library source with the same control flow; each
  is marked "library". Dynamic dispatch on \<^verbatim>\<open>self\<close> is a class tag \<open>cls\<close> passed
  to every method that calls an overridable method.
\<close>

subsection \<open>Strings\<close>

text \<open>\<^verbatim>\<open>str(n)\<close> for a non-negative integer.\<close>

definition digit :: "nat \<Rightarrow> char" where
  "digit d = ''0123456789'' ! d"

function str_nat :: "nat \<Rightarrow> string" where
  "str_nat n = (if n < 10 then [digit n] else str_nat (n div 10) @ [digit (n mod 10)])"
  by pat_completeness auto
termination
  by (relation "measure id") auto

declare str_nat.simps [simp del]

text \<open>
  Splitting at every character that satisfies \<open>sep\<close>: \<^verbatim>\<open>s.split(c)\<close> with an explicit
  one-character separator keeps the empty pieces, \<^verbatim>\<open>s.split()\<close> splits at runs of
  whitespace and drops them.
\<close>

fun split_by :: "(char \<Rightarrow> bool) \<Rightarrow> string \<Rightarrow> string list" where
  "split_by sep [] = [[]]"
| "split_by sep (x # xs) =
     (if sep x then [] # split_by sep xs
      else (case split_by sep xs of [] \<Rightarrow> [[x]] | w # ws \<Rightarrow> (x # w) # ws))"

definition split_on :: "char \<Rightarrow> string \<Rightarrow> string list" where
  "split_on c s = split_by (\<lambda>x. x = c) s"

text \<open>
  \<^verbatim>\<open>c.isspace()\<close> for a character of a string decoded as ISO-8859-1: the code points
  9 to 13, 28 to 32, 133 and 160.
\<close>

definition isspace :: "char \<Rightarrow> bool" where
  "isspace c = (c \<in> set [CHR 0x09, CHR 0x0A, CHR 0x0B, CHR 0x0C, CHR 0x0D, CHR 0x1C, CHR 0x1D,
     CHR 0x1E, CHR 0x1F, CHR 0x20, CHR 0x85, CHR 0xA0])"

definition split_ws :: "string \<Rightarrow> string list" where
  "split_ws s = filter (\<lambda>w. w \<noteq> []) (split_by isspace s)"

text \<open>\<^verbatim>\<open>s.rstrip('\r\n')\<close> and \<^verbatim>\<open>s.lstrip('/')\<close>.\<close>

definition rstrip_crlf :: "string \<Rightarrow> string" where
  "rstrip_crlf s = rev (dropWhile (\<lambda>c. c = CHR 0x0D \<or> c = CHR 0x0A) (rev s))"

definition lstrip_slash :: "string \<Rightarrow> string" where
  "lstrip_slash s = dropWhile (\<lambda>c. c = CHR ''/'') s"

text \<open>\<^verbatim>\<open>s.startswith(p)\<close> and \<^verbatim>\<open>s.endswith(p)\<close>.\<close>

definition startswith :: "string \<Rightarrow> string \<Rightarrow> bool" where
  "startswith s p = (take (length p) s = p)"

definition endswith :: "string \<Rightarrow> string \<Rightarrow> bool" where
  "endswith s p = (length p \<le> length s \<and> drop (length s - length p) s = p)"

text \<open>
  \<^verbatim>\<open>component.isdigit()\<close> followed by \<^verbatim>\<open>int(component)\<close> on a string decoded as
  ISO-8859-1: both succeed exactly on a non-empty string of ASCII digits (the
  superscript digits pass \<^verbatim>\<open>isdigit\<close> but make \<^verbatim>\<open>int\<close> raise the same
  \<^verbatim>\<open>ValueError\<close>).
\<close>

definition is_ascii_digit :: "char \<Rightarrow> bool" where
  "is_ascii_digit c = (c \<in> set ''0123456789'')"

definition isdigit :: "string \<Rightarrow> bool" where
  "isdigit s = (s \<noteq> [] \<and> list_all is_ascii_digit s)"

definition digit_val :: "char \<Rightarrow> nat" where
  "digit_val c = length (takeWhile (\<lambda>d. d \<noteq> c) ''0123456789'')"

definition int_of_str :: "string \<Rightarrow> nat" where
  "int_of_str s = foldl (\<lambda>a c. 10 * a + digit_val c) 0 s"

text \<open>\<^verbatim>\<open>posixpath.join(a, b)\<close>.\<close>

definition os_path_join :: "string \<Rightarrow> string \<Rightarrow> string" where
  "os_path_join a b =
     (if startswith b ''/'' then b
      else if a = [] \<or> endswith a ''/'' then a @ b
      else a @ ''/'' @ b)"

subsection \<open>The environment of a request\<close>

text \<open>
  A file as \<^verbatim>\<open>open(path, 'rb')\<close> and \<^verbatim>\<open>os.fstat\<close> see it: its bytes and its
  modification time; \<^verbatim>\<open>fs[6]\<close> (\<^verbatim>\<open>st_size\<close>) is the number of bytes.
\<close>

record file_obj =
  content :: string
  st_mtime :: nat

text \<open>
  The file system under the working directory, the clock, and the library's
  pure formatting helpers whose output no property below depends on. Each field
  stands for the library or operating-system function named beside it.
\<close>

record env =
  os_path_isdir :: "string \<Rightarrow> bool"                    \<comment> \<open>\<^verbatim>\<open>os.path.isdir\<close>\<close>
  os_path_isfile :: "string \<Rightarrow> bool"                   \<comment> \<open>\<^verbatim>\<open>os.path.isfile\<close>\<close>
  os_listdir :: "string \<Rightarrow> string list option"         \<comment> \<open>\<^verbatim>\<open>os.listdir\<close>; \<open>None\<close> is \<^verbatim>\<open>OSError\<close>\<close>
  open_rb :: "string \<Rightarrow> file_obj option"                   \<comment> \<open>\<^verbatim>\<open>open(path, 'rb')\<close>; \<open>None\<close> is \<^verbatim>\<open>OSError\<close>\<close>
  translate_path :: "string \<Rightarrow> string"                 \<comment> \<open>\<^verbatim>\<open>self.translate_path\<close>, rooted at \<^verbatim>\<open>os.getcwd()\<close>\<close>
  urlsplit_path :: "string \<Rightarrow> string"                  \<comment> \<open>\<^verbatim>\<open>urllib.parse.urlsplit(p).path\<close>\<close>
  redirect_url :: "string \<Rightarrow> string"                   \<comment> \<open>\<^verbatim>\<open>urlunsplit\<close> of the parts with \<^verbatim>\<open>'/'\<close> appended to the path\<close>
  guess_type :: "string \<Rightarrow> string"                     \<comment> \<open>\<^verbatim>\<open>self.guess_type\<close>\<close>
  sort_names :: "string list \<Rightarrow> string list"        \<comment> \<open>\<^verbatim>\<open>list.sort(key=lambda a: a.lower())\<close>\<close>
  listing_page :: "string \<Rightarrow> string \<Rightarrow> string list \<Rightarrow> string"
      \<comment> \<open>the encoded HTML that \<^verbatim>\<open>list_directory\<close> builds from \<^verbatim>\<open>self.path\<close>, the directory and its sorted entries\<close>
  filesystemencoding :: string                         \<comment> \<open>\<^verbatim>\<open>sys.getfilesystemencoding()\<close>\<close>
  not_modified_since :: "string \<Rightarrow> nat \<Rightarrow> bool"
      \<comment> \<open>the \<^verbatim>\<open>If-Modified-Since\<close> value parses to a UTC date not before the modification time\<close>
  version_string :: string                             \<comment> \<open>\<^verbatim>\<open>self.version_string()\<close>\<close>
  date_time_string :: "nat option \<Rightarrow> string"            \<comment> \<open>\<^verbatim>\<open>self.date_time_string(timestamp)\<close>\<close>
  responses :: "nat \<Rightarrow> (string \<times> string) option"       \<comment> \<open>\<^verbatim>\<open>self.responses\<close>, the \<^verbatim>\<open>HTTPStatus\<close> table\<close>
  error_page :: "nat \<Rightarrow> string \<Rightarrow> string \<Rightarrow> string"
      \<comment> \<open>\<^verbatim>\<open>error_message_format % {code, message, explain}\<close>, HTML-escaped and encoded\<close>
  repr :: "string \<Rightarrow> string"                           \<comment> \<open>\<^verbatim>\<open>'%r' % s\<close>\<close>

subsection \<open>Requests and responses\<close>

text \<open>
  What \<^verbatim>\<open>http.client.parse_headers\<close> makes of the header lines: a message whose
  lookup is the map, or one of the two exceptions \<^verbatim>\<open>parse_request\<close> catches, with
  \<^verbatim>\<open>str(err)\<close>.
\<close>

datatype header_parse =
    Parsed "string \<rightharpoonup> string"
  | LineTooLong string
  | TooManyHeaders string

text \<open>
  A request as \<^verbatim>\<open>parse_request\<close> reads it: the request line
  \<^verbatim>\<open>str(self.raw_requestline, 'iso-8859-1')\<close> and the header lines that follow it.
\<close>

record request =
  raw_requestline :: string
  header_lines :: header_parse

text \<open>
  What \<^verbatim>\<open>self.rfile.readline(65537)\<close> returns in \<^verbatim>\<open>handle_one_request\<close>: more
  than 65536 bytes, nothing (the peer closed the connection), or a request.
\<close>

datatype raw_request = TooLong | Eof | Line request

text \<open>
  An entry of \<^verbatim>\<open>_headers_buffer\<close>: the status line
  \<^verbatim>\<open>"%s %d %s\r\n" % (protocol_version, code, message)\<close>, a header
  \<^verbatim>\<open>"%s: %s\r\n" % (keyword, value)\<close>, or the blank line \<^verbatim>\<open>"\r\n"\<close>.
\<close>

datatype hline =
    StatusLine string nat string
  | HeaderLine string string
  | BlankLine

text \<open>
  One \<^verbatim>\<open>self.wfile.write\<close>: the joined headers buffer (\<^verbatim>\<open>flush_headers\<close>), or body
  bytes.
\<close>

datatype chunk = HeaderBlock "hline list" | Body string

datatype fs_op = IsDir string | IsFile string | IsLink string | ListDir string | Open string

datatype log_entry = LogRequest string nat | LogError nat string

text \<open>
  The handler instance: the attributes the methods read and write, the bytes
  written to the client so far, the lines logged to \<^verbatim>\<open>sys.stderr\<close>, and the
  file-system calls made so far. \<open>command\<close> is \<open>None\<close> where Python has \<^verbatim>\<open>None\<close>.
\<close>

record handler =
  requestline :: string
  command :: "string option"
  path :: string
  request_version :: string
  headers :: "string \<rightharpoonup> string"
  headers_buffer :: "hline list"
  wfile :: "chunk list"
  log_lines :: "log_entry list"
  fs_trace :: "fs_op list"

definition new_handler :: handler where
  "new_handler = \<lparr>requestline = [], command = None, path = [], request_version = [], headers = Map.empty,
     headers_buffer = [], wfile = [], log_lines = [], fs_trace = []\<rparr>"

datatype cls = SimpleHTTPRequestHandler | CORSHTTPRequestHandler

definition protocol_version :: string where
  "protocol_version = ''HTTP/1.0''"

definition default_request_version :: string where
  "default_request_version = ''HTTP/0.9''"

subsection \<open>Library: writing the status line and the headers\<close>

text \<open>\<^verbatim>\<open>BaseHTTPRequestHandler.send_response_only\<close> (library).\<close>

definition send_response_only :: "env \<Rightarrow> nat \<Rightarrow> string option \<Rightarrow> handler \<Rightarrow> handler" where
  "send_response_only e code message h =
     (if request_version h \<noteq> ''HTTP/0.9'' then
        let msg = (case message of
                     Some m \<Rightarrow> m
                   | None \<Rightarrow> (case responses e code of Some (short, long) \<Rightarrow> short | None \<Rightarrow> []))
        in h\<lparr>headers_buffer := headers_buffer h @ [StatusLine protocol_version code msg]\<rparr>
      else h)"

text \<open>
  \<^verbatim>\<open>BaseHTTPRequestHandler.send_header\<close> (library). Its second half sets
  \<^verbatim>\<open>close_connection\<close> for a \<^verbatim>\<open>Connection\<close> header; that attribute only decides
  whether \<^verbatim>\<open>handle\<close> reads another request from the same connection, and is not
  part of the state here.
\<close>

definition send_header :: "string \<Rightarrow> string \<Rightarrow> handler \<Rightarrow> handler" where
  "send_header keyword val h =
     (if request_version h \<noteq> ''HTTP/0.9'' then
        h\<lparr>headers_buffer := headers_buffer h @ [HeaderLine keyword val]\<rparr>
      else h)"

text \<open>\<^verbatim>\<open>BaseHTTPRequestHandler.flush_headers\<close> (library).\<close>

definition flush_headers :: "handler \<Rightarrow> handler" where
  "flush_headers h = h\<lparr>wfile := wfile h @ [HeaderBlock (headers_buffer h)], headers_buffer := []\<rparr>"

text \<open>\<^verbatim>\<open>BaseHTTPRequestHandler.end_headers\<close> (library), reached by \<^verbatim>\<open>super().end_headers()\<close>.\<close>

definition super_end_headers :: "handler \<Rightarrow> handler" where
  "super_end_headers h =
     (if request_version h \<noteq> ''HTTP/0.9'' then
        flush_headers (h\<lparr>headers_buffer := headers_buffer h @ [BlankLine]\<rparr>)
      else h)"

subsection \<open>https-server.py: \<^verbatim>\<open>CORSHTTPRequestHandler.end_headers\<close>\<close>

text \<open>
  \<^verbatim>\<open>
  def end_headers(self):
      self.send_header('Access-Control-Allow-Origin', '*')
      self.send_header('Access-Control-Allow-Methods', 'GET, POST, PUT, DELETE, OPTIONS')
      self.send_header('Access-Control-Allow-Headers', 'Content-Type, Authorization')
      super().end_headers()
  \<close>
\<close>

definition CORS_end_headers :: "handler \<Rightarrow> handler" where
  "CORS_end_headers h =
     super_end_headers
       (send_header ''Access-Control-Allow-Headers'' ''Content-Type, Authorization''
         (send_header ''Access-Control-Allow-Methods'' ''GET, POST, PUT, DELETE, OPTIONS''
           (send_header ''Access-Control-Allow-Origin'' ''*'' h)))"

text \<open>\<^verbatim>\<open>self.end_headers()\<close>: the method of the class of \<^verbatim>\<open>self\<close>.\<close>

fun end_headers :: "cls \<Rightarrow> handler \<Rightarrow> handler" where
  "end_headers SimpleHTTPRequestHandler h = super_end_headers h"
| "end_headers CORSHTTPRequestHandler h = CORS_end_headers h"

subsection \<open>Library: responses and errors\<close>

text \<open>\<^verbatim>\<open>BaseHTTPRequestHandler.log_request\<close> and \<^verbatim>\<open>log_error\<close> (library), as far as what they log.\<close>

definition log_request :: "nat \<Rightarrow> handler \<Rightarrow> handler" where
  "log_request code h = h\<lparr>log_lines := log_lines h @ [LogRequest (requestline h) code]\<rparr>"

definition log_error :: "nat \<Rightarrow> string \<Rightarrow> handler \<Rightarrow> handler" where
  "log_error code message h = h\<lparr>log_lines := log_lines h @ [LogError code message]\<rparr>"

text \<open>\<^verbatim>\<open>BaseHTTPRequestHandler.send_response\<close> (library).\<close>

definition send_response :: "env \<Rightarrow> nat \<Rightarrow> string option \<Rightarrow> handler \<Rightarrow> handler" where
  "send_response e code message h =
     send_header ''Date'' (date_time_string e None)
       (send_header ''Server'' (version_string e)
         (send_response_only e code message
           (log_request code h)))"

text \<open>\<^verbatim>\<open>BaseHTTPRequestHandler.send_error\<close> (library).\<close>

definition send_error :: "cls \<Rightarrow> env \<Rightarrow> nat \<Rightarrow> string option \<Rightarrow> string option \<Rightarrow> handler \<Rightarrow> handler" where
  "send_error c e code message explain h =
     (let (shortmsg, longmsg) = (case responses e code of Some sl \<Rightarrow> sl | None \<Rightarrow> (''???'', ''???''));
          message' = (case message of None \<Rightarrow> shortmsg | Some m \<Rightarrow> m);
          explain' = (case explain of None \<Rightarrow> longmsg | Some x \<Rightarrow> x);
          h1 = log_error code message' h;
          h2 = send_response e code (Some message') h1;
          h3 = send_header ''Connection'' ''close'' h2;
          body = (if code \<ge> 200 \<and> code \<notin> {204, 205, 304}
                  then Some (error_page e code message' explain') else None);
          h4 = (case body of
                  Some b \<Rightarrow> send_header ''Content-Length'' (str_nat (length b))
                              (send_header ''Content-Type'' ''text/html;charset=utf-8'' h3)
                | None \<Rightarrow> h3);
          h5 = end_headers c h4
      in (case body of
            Some b \<Rightarrow> (if command h5 \<noteq> Some ''HEAD'' \<and> b \<noteq> []
                       then h5\<lparr>wfile := wfile h5 @ [Body b]\<rparr> else h5)
          | None \<Rightarrow> h5))"

subsection \<open>https-server.py: \<^verbatim>\<open>CORSHTTPRequestHandler.do_OPTIONS\<close>\<close>

text \<open>
  \<^verbatim>\<open>
  def do_OPTIONS(self):
      self.send_response(200)
      self.end_headers()
  \<close>
  The method exists on instances of \<^verbatim>\<open>CORSHTTPRequestHandler\<close> only, so
  \<^verbatim>\<open>self.end_headers()\<close> is the override above.
\<close>

definition do_OPTIONS :: "env \<Rightarrow> handler \<Rightarrow> handler" where
  "do_OPTIONS e h = end_headers CORSHTTPRequestHandler (send_response e 200 None h)"

subsection \<open>Library: serving files (\<^verbatim>\<open>SimpleHTTPRequestHandler\<close>)\<close>

definition index_pages :: "string list" where
  "index_pages = [''index.html'', ''index.htm'']"

text \<open>
  \<^verbatim>\<open>SimpleHTTPRequestHandler.list_directory\<close> (library). It returns the
  \<^verbatim>\<open>BytesIO\<close> holding the page, here its bytes.
\<close>

definition list_directory :: "cls \<Rightarrow> env \<Rightarrow> string \<Rightarrow> handler \<Rightarrow> string option \<times> handler" where
  "list_directory c e p h =
     (let h1 = h\<lparr>fs_trace := fs_trace h @ [ListDir p]\<rparr>
      in (case os_listdir e p of
            None \<Rightarrow> (None, send_error c e 404 (Some ''No permission to list directory'') None h1)
          | Some names \<Rightarrow>
              let list = sort_names e names;
                  h2 = h1\<lparr>fs_trace := fs_trace h1 @
                         concat (map (\<lambda>name. [IsDir (os_path_join p name), IsLink (os_path_join p name)]) list)\<rparr>;
                  encoded = listing_page e (path h) p list;
                  h3 = send_response e 200 None h2;
                  h4 = send_header ''Content-type'' (''text/html; charset='' @ filesystemencoding e) h3;
                  h5 = send_header ''Content-Length'' (str_nat (length encoded)) h4
              in (Some encoded, end_headers c h5)))"

text \<open>
  The loop \<^verbatim>\<open>for index in self.index_pages\<close> of \<^verbatim>\<open>send_head\<close>: the first index
  page that is a file, or \<open>None\<close> where the loop reaches its \<^verbatim>\<open>else\<close>.
\<close>

fun find_index :: "env \<Rightarrow> string \<Rightarrow> string list \<Rightarrow> handler \<Rightarrow> string option \<times> handler" where
  "find_index e p [] h = (None, h)"
| "find_index e p (i # is) h =
     (let index = os_path_join p i;
          h1 = h\<lparr>fs_trace := fs_trace h @ [IsFile index]\<rparr>
      in if os_path_isfile e index then (Some index, h1) else find_index e p is h1)"

text \<open>
  The part of \<^verbatim>\<open>send_head\<close> from \<^verbatim>\<open>ctype = self.guess_type(path)\<close> on: open the
  file and send its headers, or answer 404, or 304 for a conditional request.
  It returns the open file, here its bytes.
\<close>

definition send_file_head :: "cls \<Rightarrow> env \<Rightarrow> string \<Rightarrow> handler \<Rightarrow> string option \<times> handler" where
  "send_file_head c e p h =
     (let ctype = guess_type e p
      in if endswith p ''/'' then (None, send_error c e 404 (Some ''File not found'') None h)
         else
           let h1 = h\<lparr>fs_trace := fs_trace h @ [Open p]\<rparr>
           in (case open_rb e p of
                None \<Rightarrow> (None, send_error c e 404 (Some ''File not found'') None h1)
              | Some f \<Rightarrow>
                  if (case headers h1 ''If-Modified-Since'' of
                        None \<Rightarrow> False
                      | Some ims \<Rightarrow> headers h1 ''If-None-Match'' = None
                                   \<and> not_modified_since e ims (st_mtime f))
                  then (None, end_headers c (send_response e 304 None h1))
                  else
                    let h2 = send_response e 200 None h1;
                        h3 = send_header ''Content-type'' ctype h2;
                        h4 = send_header ''Content-Length'' (str_nat (length (content f))) h3;
                        h5 = send_header ''Last-Modified'' (date_time_string e (Some (st_mtime f))) h4
                    in (Some (content f), end_headers c h5)))"

text \<open>\<^verbatim>\<open>SimpleHTTPRequestHandler.send_head\<close> (library).\<close>

definition send_head :: "cls \<Rightarrow> env \<Rightarrow> handler \<Rightarrow> string option \<times> handler" where
  "send_head c e h =
     (let p = translate_path e (path h);
          h1 = h\<lparr>fs_trace := fs_trace h @ [IsDir p]\<rparr>
      in if os_path_isdir e p then
           if \<not> endswith (urlsplit_path e (path h)) ''/'' then
             let h2 = send_response e 301 None h1;
                 h3 = send_header ''Location'' (redirect_url e (path h)) h2;
                 h4 = send_header ''Content-Length'' ''0'' h3
             in (None, end_headers c h4)
           else (case find_index e p index_pages h1 of
                   (Some index, h2) \<Rightarrow> send_file_head c e index h2
                 | (None, h2) \<Rightarrow> list_directory c e p h2)
         else send_file_head c e p h1)"

text \<open>
  \<^verbatim>\<open>SimpleHTTPRequestHandler.copyfile\<close> (library): \<^verbatim>\<open>shutil.copyfileobj\<close> writes the
  bytes in blocks; the blocks are one \<open>Body\<close> chunk here, and an empty file
  writes nothing.
\<close>

definition copyfile :: "string \<Rightarrow> handler \<Rightarrow> handler" where
  "copyfile source h = (if source = [] then h else h\<lparr>wfile := wfile h @ [Body source]\<rparr>)"

text \<open>\<^verbatim>\<open>SimpleHTTPRequestHandler.do_GET\<close> and \<^verbatim>\<open>do_HEAD\<close> (library).\<close>

definition do_GET :: "cls \<Rightarrow> env \<Rightarrow> handler \<Rightarrow> handler" where
  "do_GET c e h = (case send_head c e h of (Some f, h1) \<Rightarrow> copyfile f h1 | (None, h1) \<Rightarrow> h1)"

definition do_HEAD :: "cls \<Rightarrow> env \<Rightarrow> handler \<Rightarrow> handler" where
  "do_HEAD c e h = snd (send_head c e h)"

subsection \<open>Library: reading and dispatching a request (\<^verbatim>\<open>BaseHTTPRequestHandler\<close>)\<close>

text \<open>
  The \<^verbatim>\<open>try\<close> block of \<^verbatim>\<open>parse_request\<close> that reads the protocol version off the
  last word: \<open>None\<close> is its \<^verbatim>\<open>ValueError\<close>, otherwise the pair
  \<^verbatim>\<open>version_number\<close>. A version that starts with \<^verbatim>\<open>'HTTP/'\<close> has
  \<^verbatim>\<open>version.split('/', 1)[1]\<close> equal to \<^verbatim>\<open>version[5:]\<close>.
\<close>

definition parse_version :: "string \<Rightarrow> (nat \<times> nat) option" where
  "parse_version version =
     (if \<not> startswith version ''HTTP/'' then None
      else
        let base_version_number = drop 5 version;
            version_number = split_on (CHR ''.'') base_version_number
        in if length version_number \<noteq> 2 then None
           else if list_ex (\<lambda>component. \<not> isdigit component) version_number then None
           else if list_ex (\<lambda>component. length component > 10) version_number then None
           else Some (int_of_str (version_number ! 0), int_of_str (version_number ! 1)))"

text \<open>
  \<^verbatim>\<open>BaseHTTPRequestHandler.parse_request\<close> (library). \<^verbatim>\<open>self.request_version\<close> is
  the default \<^verbatim>\<open>'HTTP/0.9'\<close> until the version of a line of three or more words
  has been accepted. The \<^verbatim>\<open>Connection\<close> header only sets \<^verbatim>\<open>close_connection\<close>, and
  the \<^verbatim>\<open>Expect: 100-continue\<close> branch needs
  \<^verbatim>\<open>self.protocol_version >= "HTTP/1.1"\<close>, which is false for this handler
  (\<open>protocol_version\<close> is \<^verbatim>\<open>"HTTP/1.0"\<close>); neither is part of the model.
\<close>

definition parse_request :: "cls \<Rightarrow> env \<Rightarrow> request \<Rightarrow> handler \<Rightarrow> bool \<times> handler" where
  "parse_request c e req h =
     (let h0 = h\<lparr>command := None, request_version := default_request_version,
                 requestline := rstrip_crlf (raw_requestline req)\<rparr>;
          ws = split_ws (requestline h0)
      in if length ws = 0 then (False, h0)
         else
           case (if length ws \<ge> 3 then
                   (let version = last ws
                    in (case parse_version version of
                          None \<Rightarrow> (False, send_error c e 400
                                     (Some (''Bad request version ('' @ repr e version @ '')'')) None h0)
                        | Some (major, minor) \<Rightarrow>
                            if major \<ge> 2 then
                              (False, send_error c e 505
                                 (Some (''Invalid HTTP version ('' @ drop 5 version @ '')'')) None h0)
                            else (True, h0\<lparr>request_version := version\<rparr>)))
                 else (True, h0)) of
             (False, h1) \<Rightarrow> (False, h1)
           | (True, h1) \<Rightarrow>
               if \<not> (2 \<le> length ws \<and> length ws \<le> 3) then
                 (False, send_error c e 400
                    (Some (''Bad request syntax ('' @ repr e (requestline h1) @ '')'')) None h1)
               else
                 let cmd = ws ! 0; p = ws ! 1
                 in if length ws = 2 \<and> cmd \<noteq> ''GET'' then
                      (False, send_error c e 400
                         (Some (''Bad HTTP/0.9 request type ('' @ repr e cmd @ '')'')) None h1)
                    else
                      let h2 = h1\<lparr>command := Some cmd,
                                  path := (if startswith p ''//'' then ''/'' @ lstrip_slash p else p)\<rparr>
                      in (case header_lines req of
                            LineTooLong err \<Rightarrow>
                              (False, send_error c e 431 (Some ''Line too long'') (Some err) h2)
                          | TooManyHeaders err \<Rightarrow>
                              (False, send_error c e 431 (Some ''Too many headers'') (Some err) h2)
                          | Parsed m \<Rightarrow> (True, h2\<lparr>headers := m\<rparr>)))"

text \<open>
  \<^verbatim>\<open>hasattr(self, mname)\<close>: \<^verbatim>\<open>SimpleHTTPRequestHandler\<close> defines \<^verbatim>\<open>do_GET\<close> and
  \<^verbatim>\<open>do_HEAD\<close>, https-server.py adds \<^verbatim>\<open>do_OPTIONS\<close>; and the call of the method
  found.
\<close>

definition has_method :: "cls \<Rightarrow> string \<Rightarrow> bool" where
  "has_method c mname =
     (mname = ''do_GET'' \<or> mname = ''do_HEAD''
      \<or> (c = CORSHTTPRequestHandler \<and> mname = ''do_OPTIONS''))"

definition call_method :: "cls \<Rightarrow> env \<Rightarrow> string \<Rightarrow> handler \<Rightarrow> handler" where
  "call_method c e mname h =
     (if mname = ''do_GET'' then do_GET c e h
      else if mname = ''do_HEAD'' then do_HEAD c e h
      else do_OPTIONS e h)"

text \<open>
  The dispatch of \<^verbatim>\<open>handle_one_request\<close> after a successful \<^verbatim>\<open>parse_request\<close>
  (library). \<^verbatim>\<open>parse_request\<close> has set \<^verbatim>\<open>self.command\<close> when it returns true.
\<close>

definition dispatch :: "cls \<Rightarrow> env \<Rightarrow> handler \<Rightarrow> handler" where
  "dispatch c e h =
     (case command h of
        None \<Rightarrow> h
      | Some cmd \<Rightarrow>
          let mname = ''do_'' @ cmd
          in if \<not> has_method c mname then
               send_error c e 501 (Some (''Unsupported method ('' @ repr e cmd @ '')'')) None h
             else call_method c e mname h)"

text \<open>
  \<^verbatim>\<open>BaseHTTPRequestHandler.handle_one_request\<close> (library). No socket timeout is
  set, so its \<^verbatim>\<open>TimeoutError\<close> handler is not reached; errors of the client
  socket while writing are outside the model.
\<close>

definition handle_one_request :: "cls \<Rightarrow> env \<Rightarrow> raw_request \<Rightarrow> handler \<Rightarrow> handler" where
  "handle_one_request c e raw h =
     (case raw of
        TooLong \<Rightarrow>
          send_error c e 414 None None (h\<lparr>requestline := [], request_version := [], command := Some []\<rparr>)
      | Eof \<Rightarrow> h
      | Line req \<Rightarrow>
          (case parse_request c e req h of
             (False, h1) \<Rightarrow> h1
           | (True, h1) \<Rightarrow> dispatch c e h1))"

text \<open>
  The response to one request: what a fresh handler of the class has written
  when \<^verbatim>\<open>handle_one_request\<close> returns.
\<close>

definition respond :: "cls \<Rightarrow> env \<Rightarrow> raw_request \<Rightarrow> handler" where
  "respond c e raw = handle_one_request c e raw new_handler"

subsection \<open>Library: the server object (\<^verbatim>\<open>socketserver\<close>, \<^verbatim>\<open>ssl\<close>)\<close>

datatype exn = KeyboardInterrupt | OSError | SSLError

datatype ssl_protocol = PROTOCOL_TLS_SERVER

text \<open>An \<^verbatim>\<open>ssl.SSLContext\<close>: its protocol and the certificate chain loaded into it.\<close>

record ssl_context =
  protocol :: ssl_protocol
  cert_chain :: "(string \<times> string) option"

text \<open>
  A listening socket: the plain one \<^verbatim>\<open>TCPServer.__init__\<close> creates, or the
  \<^verbatim>\<open>SSLSocket\<close> that \<^verbatim>\<open>context.wrap_socket(sock, server_side=...)\<close> returns.
\<close>

datatype sock = PlainSocket | SSLSocket ssl_context bool

text \<open>
  The \<^verbatim>\<open>HTTPServer\<close> instance. \<open>shutdown_request\<close> and \<open>is_shut_down\<close> are
  \<^verbatim>\<open>BaseServer\<close>'s private flag and \<^verbatim>\<open>threading.Event\<close>; \<open>socket_closed\<close> records
  \<^verbatim>\<open>self.socket.close()\<close>; \<open>served\<close> collects what was written to each accepted
  connection.
\<close>

record server =
  server_address :: "string \<times> nat"
  RequestHandlerClass :: cls
  socket :: sock
  socket_closed :: bool
  shutdown_request :: bool
  is_shut_down :: bool
  served :: "chunk list list"

text \<open>
  What arrives while \<^verbatim>\<open>serve_forever\<close> runs: a connection carrying a request, or
  the operator's Ctrl+C. With \<open>protocol_version\<close> \<^verbatim>\<open>"HTTP/1.0"\<close> the handler's
  \<^verbatim>\<open>close_connection\<close> stays true, so \<^verbatim>\<open>handle\<close> serves one request per connection.
\<close>

datatype event = Connection raw_request | Interrupt

text \<open>
  The world \<^verbatim>\<open>main\<close> runs in: which paths exist, whether the address can be
  bound and whether the certificate chain loads (\<open>Some x\<close> is the exception
  raised), the environment of the requests, and the events that arrive during
  the accept loop.
\<close>

record world =
  path_exists :: "string \<Rightarrow> bool"
  bind_error :: "string \<times> nat \<Rightarrow> exn option"
  load_error :: "string \<Rightarrow> string \<Rightarrow> exn option"
  environ :: env
  events :: "event list"

text \<open>
  \<^verbatim>\<open>HTTPServer(server_address, RequestHandlerClass)\<close> (library,
  \<^verbatim>\<open>TCPServer.__init__\<close>): create the socket, bind and listen; when that raises, the
  constructor closes the socket and raises again.
\<close>

definition HTTPServer :: "world \<Rightarrow> string \<times> nat \<Rightarrow> cls \<Rightarrow> exn + server" where
  "HTTPServer w address c =
     (case bind_error w address of
        Some x \<Rightarrow> Inl x
      | None \<Rightarrow> Inr \<lparr>server_address = address, RequestHandlerClass = c, socket = PlainSocket,
                      socket_closed = False, shutdown_request = False, is_shut_down = False,
                      served = []\<rparr>)"

text \<open>\<^verbatim>\<open>ssl.SSLContext(protocol)\<close>, \<^verbatim>\<open>context.load_cert_chain\<close> and \<^verbatim>\<open>context.wrap_socket\<close> (library).\<close>

definition SSLContext :: "ssl_protocol \<Rightarrow> ssl_context" where
  "SSLContext p = \<lparr>protocol = p, cert_chain = None\<rparr>"

definition load_cert_chain :: "world \<Rightarrow> ssl_context \<Rightarrow> string \<Rightarrow> string \<Rightarrow> exn + ssl_context" where
  "load_cert_chain w ctx certfile keyfile =
     (case load_error w certfile keyfile of
        Some x \<Rightarrow> Inl x
      | None \<Rightarrow> Inr (ctx\<lparr>cert_chain := Some (certfile, keyfile)\<rparr>))"

definition wrap_socket :: "ssl_context \<Rightarrow> sock \<Rightarrow> bool \<Rightarrow> sock" where
  "wrap_socket ctx s server_side = SSLSocket ctx server_side"

text \<open>
  The loop of \<^verbatim>\<open>BaseServer.serve_forever\<close> (library) over the events that arrive:
  it ends when the shutdown flag is set or an exception passes through it, and
  is still waiting in \<^verbatim>\<open>select\<close> when the events run out. Each connection is
  handled by a fresh instance of the handler class
  (\<^verbatim>\<open>_handle_request_noblock\<close>, \<^verbatim>\<open>finish_request\<close>).
\<close>

datatype loop_end = Raised exn | Stopped | Waiting

fun serve_loop :: "env \<Rightarrow> event list \<Rightarrow> server \<Rightarrow> loop_end \<times> server" where
  "serve_loop e [] s = (if shutdown_request s then (Stopped, s) else (Waiting, s))"
| "serve_loop e (ev # evs) s =
     (if shutdown_request s then (Stopped, s)
      else (case ev of
              Interrupt \<Rightarrow> (Raised KeyboardInterrupt, s)
            | Connection raw \<Rightarrow>
                serve_loop e evs
                  (s\<lparr>served := served s @ [wfile (respond (RequestHandlerClass s) e raw)]\<rparr>)))"

text \<open>
  \<^verbatim>\<open>BaseServer.serve_forever\<close> (library): clear the event, run the loop, and in
  the \<^verbatim>\<open>finally\<close> clause reset the flag and set the event.
\<close>

definition serve_forever :: "env \<Rightarrow> event list \<Rightarrow> server \<Rightarrow> loop_end \<times> server" where
  "serve_forever e evs s =
     (case serve_loop e evs (s\<lparr>is_shut_down := False\<rparr>) of
        (Waiting, s1) \<Rightarrow> (Waiting, s1)
      | (r, s1) \<Rightarrow> (r, s1\<lparr>shutdown_request := False, is_shut_down := True\<rparr>))"

text \<open>
  \<^verbatim>\<open>BaseServer.shutdown\<close> (library): set the flag and wait for the event. In a
  single thread the wait returns only if the event is already set; \<open>None\<close> is the
  wait that never returns.
\<close>

definition shutdown :: "server \<Rightarrow> server option" where
  "shutdown s =
     (let s1 = s\<lparr>shutdown_request := True\<rparr>
      in if is_shut_down s1 then Some s1 else None)"

subsection \<open>https-server.py: \<^verbatim>\<open>main\<close>\<close>

text \<open>
  \<^verbatim>\<open>
  def main():
      port = 3000
      ssl_dir = Path('ssl')
      cert_file = ssl_dir / 'server.crt'
      key_file = ssl_dir / 'server.key'
      if not cert_file.exists() or not key_file.exists():
          print("SSL certificates not found!")
          print("Please run ./generate-ssl.sh first to create SSL certificates.")
          sys.exit(1)
      server_address = ('', port)
      httpd = http.server.HTTPServer(server_address, CORSHTTPRequestHandler)
      context = ssl.SSLContext(ssl.PROTOCOL_TLS_SERVER)
      context.load_cert_chain(str(cert_file), str(key_file))
      httpd.socket = context.wrap_socket(httpd.socket, server_side=True)
      print(f"HTTPS server starting on https://localhost:{port}/")
      ... three more lines printed ...
      try:
          httpd.serve_forever()
      except KeyboardInterrupt:
          print("\nServer stopped")
          httpd.shutdown()
  \<close>
  The model returns the state of the process when it ends, or when the events
  run out, with the way it ends. \<open>stdout\<close> holds the argument of each \<^verbatim>\<open>print\<close>.
  An interrupt is modelled where the program handles it, inside
  \<^verbatim>\<open>serve_forever\<close>.
\<close>

text \<open>
  How the process ends: with an exit status (\<^verbatim>\<open>sys.exit(n)\<close>, or 0 when \<^verbatim>\<open>main\<close>
  returns), with the traceback of an exception nobody caught, still serving
  (the events ran out inside the accept loop), or hung in a wait.
\<close>

datatype outcome = Exit nat | Traceback exn | Serving | Hung

record process =
  stdout :: "string list"
  httpd :: "server option"
  context' :: "ssl_context option"

definition main :: "world \<Rightarrow> process \<times> outcome" where
  "main w =
     (let port = 3000;
          ssl_dir = ''ssl'';
          cert_file = os_path_join ssl_dir ''server.crt'';
          key_file = os_path_join ssl_dir ''server.key'';
          p0 = \<lparr>stdout = [], httpd = None, context' = None\<rparr>
      in if \<not> path_exists w cert_file \<or> \<not> path_exists w key_file then
           (p0\<lparr>stdout := [''SSL certificates not found!'',
               ''Please run ./generate-ssl.sh first to create SSL certificates.'']\<rparr>, Exit 1)
         else
           (case HTTPServer w ([], port) CORSHTTPRequestHandler of
              Inl x \<Rightarrow> (p0, Traceback x)
            | Inr s \<Rightarrow>
                let p1 = p0\<lparr>httpd := Some s, context' := Some (SSLContext PROTOCOL_TLS_SERVER)\<rparr>
                in (case load_cert_chain w (SSLContext PROTOCOL_TLS_SERVER) cert_file key_file of
                      Inl x \<Rightarrow> (p1, Traceback x)
                    | Inr ctx \<Rightarrow>
                        let s1 = s\<lparr>socket := wrap_socket ctx (socket s) True\<rparr>;
                            p2 = p1\<lparr>httpd := Some s1, context' := Some ctx,
                               stdout := stdout p1 @
                                 [''HTTPS server starting on https://localhost:'' @ str_nat port @ ''/'',
                                  ''Note: Your browser will show a security warning for the self-signed certificate.'',
                                  ''Click 'Advanced' then 'Proceed to localhost (unsafe)' to continue.'',
                                  ''Press Ctrl+C to stop the server'']\<rparr>
                        in (case serve_forever (environ w) (events w) s1 of
                              (Waiting, s2) \<Rightarrow> (p2\<lparr>httpd := Some s2\<rparr>, Serving)
                            | (Stopped, s2) \<Rightarrow> (p2\<lparr>httpd := Some s2\<rparr>, Exit 0)
                            | (Raised KeyboardInterrupt, s2) \<Rightarrow>
                                let p3 = p2\<lparr>httpd := Some s2,
                                           stdout := stdout p2 @ [CHR 0x0A # ''Server stopped'']\<rparr>
                                in (case shutdown s2 of
                                      None \<Rightarrow> (p3, Hung)
                                    | Some s3 \<Rightarrow> (p3\<lparr>httpd := Some s3\<rparr>, Exit 0))
                            | (Raised x, s2) \<Rightarrow> (p2\<lparr>httpd := Some s2\<rparr>, Traceback x)))))"

section \<open>The vocabulary of the properties\<close>

text \<open>The three header fields that \<^verbatim>\<open>CORSHTTPRequestHandler.end_headers\<close> adds.\<close>

definition cors_headers :: "(string \<times> string) list" where
  "cors_headers =
     [(''Access-Control-Allow-Origin'', ''*''),
      (''Access-Control-Allow-Methods'', ''GET, POST, PUT, DELETE, OPTIONS''),
      (''Access-Control-Allow-Headers'', ''Content-Type, Authorization'')]"

text \<open>
  What a client reads off the bytes written: the header fields, the status
  codes and the body, and whether a chunk is body bytes.
\<close>

fun header_fields :: "hline list \<Rightarrow> (string \<times> string) list" where
  "header_fields [] = []"
| "header_fields (HeaderLine k v # ls) = (k, v) # header_fields ls"
| "header_fields (StatusLine p c m # ls) = header_fields ls"
| "header_fields (BlankLine # ls) = header_fields ls"

fun response_headers :: "chunk list \<Rightarrow> (string \<times> string) list" where
  "response_headers [] = []"
| "response_headers (HeaderBlock ls # cs) = header_fields ls @ response_headers cs"
| "response_headers (Body b # cs) = response_headers cs"

fun status_codes :: "hline list \<Rightarrow> nat list" where
  "status_codes [] = []"
| "status_codes (StatusLine p c m # ls) = c # status_codes ls"
| "status_codes (HeaderLine k v # ls) = status_codes ls"
| "status_codes (BlankLine # ls) = status_codes ls"

fun response_status :: "chunk list \<Rightarrow> nat list" where
  "response_status [] = []"
| "response_status (HeaderBlock ls # cs) = status_codes ls @ response_status cs"
| "response_status (Body b # cs) = response_status cs"

fun response_body :: "chunk list \<Rightarrow> string" where
  "response_body [] = []"
| "response_body (HeaderBlock ls # cs) = response_body cs"
| "response_body (Body b # cs) = b @ response_body cs"




text \<open>The reason phrase that \<^verbatim>\<open>send_response_only\<close> writes.\<close>

definition status_message :: "env \<Rightarrow> nat \<Rightarrow> string option \<Rightarrow> string" where
  "status_message e code message =
     (case message of
        Some m \<Rightarrow> m
      | None \<Rightarrow> (case responses e code of Some (short, long) \<Rightarrow> short | None \<Rightarrow> []))"

text \<open>
  Removing the three CORS header lines from what was written, and from a
  handler's buffer and output: what is left is compared with the output of the
  plain \<^verbatim>\<open>SimpleHTTPRequestHandler\<close>.
\<close>

definition is_cors_line :: "hline \<Rightarrow> bool" where
  "is_cors_line l = (case l of HeaderLine k v \<Rightarrow> (k, v) \<in> set cors_headers | _ \<Rightarrow> False)"

fun strip_cors :: "chunk \<Rightarrow> chunk" where
  "strip_cors (HeaderBlock ls) = HeaderBlock (filter (\<lambda>l. \<not> is_cors_line l) ls)"
| "strip_cors (Body b) = Body b"

definition plain :: "handler \<Rightarrow> handler" where
  "plain h = h\<lparr>headers_buffer := filter (\<lambda>l. \<not> is_cors_line l) (headers_buffer h),
              wfile := map strip_cors (wfile h)\<rparr>"

text \<open>
  The request version in force when the response to a request line is written,
  read off \<^verbatim>\<open>parse_request\<close>: the last word of a line of three or more words
  when it is a well-formed version below 2.0, and the default \<^verbatim>\<open>HTTP/0.9\<close>
  otherwise.
\<close>

definition answered_version :: "request \<Rightarrow> string" where
  "answered_version req =
     (let ws = split_ws (rstrip_crlf (raw_requestline req))
      in if length ws \<ge> 3 then
           (case parse_version (last ws) of
              None \<Rightarrow> default_request_version
            | Some (major, minor) \<Rightarrow> if major \<ge> 2 then default_request_version else last ws)
         else default_request_version)"

text \<open>\<^verbatim>\<open>sub in s\<close> for strings.\<close>

fun contains :: "string \<Rightarrow> string \<Rightarrow> bool" where
  "contains [] sub = (sub = [])"
| "contains (x # xs) sub = (startswith (x # xs) sub \<or> contains xs sub)"

text \<open>The responses to the connections that arrive before the first interrupt.\<close>

fun responses_until_interrupt :: "cls \<Rightarrow> env \<Rightarrow> event list \<Rightarrow> chunk list list" where
  "responses_until_interrupt c e [] = []"
| "responses_until_interrupt c e (Interrupt # evs) = []"
| "responses_until_interrupt c e (Connection raw # evs) =
     wfile (respond c e raw) # responses_until_interrupt c e evs"

subsection \<open>Concrete inputs\<close>

text \<open>
  A working directory \<^verbatim>\<open>/srv\<close> that holds one file, \<^verbatim>\<open>index.html\<close>, last
  modified at time 0; requests without header lines, and requests with an
  \<^verbatim>\<open>If-Modified-Since\<close> header of a later date.
\<close>

definition demo_env :: env where
  "demo_env = \<lparr>
     os_path_isdir = (\<lambda>p. p = ''/srv/''),
     os_path_isfile = (\<lambda>p. p = ''/srv/index.html''),
     os_listdir = (\<lambda>p. None),
     open_rb = (\<lambda>p. if p = ''/srv/index.html''
                     then Some \<lparr>content = ''<h1>hi</h1>'', st_mtime = 0\<rparr> else None),
     translate_path = (\<lambda>p. ''/srv'' @ p),
     urlsplit_path = (\<lambda>p. p),
     redirect_url = (\<lambda>p. p @ ''/''),
     guess_type = (\<lambda>p. ''text/html''),
     sort_names = (\<lambda>l. l),
     listing_page = (\<lambda>u p l. []),
     filesystemencoding = ''utf-8'',
     not_modified_since = (\<lambda>v t. True),
     version_string = ''SimpleHTTP/0.6 Python/3.12.3'',
     date_time_string = (\<lambda>t. ''Thu, 01 Jan 1970 00:00:00 GMT''),
     responses = (\<lambda>code.
        if code = 200 then Some (''OK'', ''Request fulfilled, document follows'')
        else if code = 404 then Some (''Not Found'', ''Nothing matches the given URI'')
        else if code = 505 then Some (''HTTP Version Not Supported'', ''Cannot fulfill request'')
        else None),
     error_page = (\<lambda>code message explain. ''<p>'' @ message @ ''</p>''),
     repr = (\<lambda>s. s)\<rparr>"

definition demo_line :: "string \<Rightarrow> request" where
  "demo_line l = \<lparr>raw_requestline = l, header_lines = Parsed Map.empty\<rparr>"


definition demo_request :: "string \<Rightarrow> raw_request" where
  "demo_request l = Line (demo_line l)"

text \<open>
  Worlds for \<^verbatim>\<open>main\<close>: both certificate files present and loadable, one
  connection and then Ctrl+C; the key file missing; the key file present but
  rejected by \<^verbatim>\<open>load_cert_chain\<close>.
\<close>

definition demo_world :: world where
  "demo_world = \<lparr>path_exists = (\<lambda>p. True), bind_error = (\<lambda>a. None),
     load_error = (\<lambda>c k. None), environ = demo_env,
     events = [Connection (demo_request ''OPTIONS / HTTP/1.1''), Interrupt,
               Connection (demo_request ''GET / HTTP/1.1'')]\<rparr>"

definition no_key_world :: world where
  "no_key_world = demo_world\<lparr>path_exists := (\<lambda>p. p = ''ssl/server.crt'')\<rparr>"

definition bad_key_world :: world where
  "bad_key_world = demo_world\<lparr>load_error := (\<lambda>c k. Some SSLError)\<rparr>"

section \<open>Lemmas about the handler and the server\<close>

subsection \<open>Reading a response\<close>

lemma header_fields_append [simp]: "header_fields (xs @ ys) = header_fields xs @ header_fields ys"
  by (induction xs rule: header_fields.induct) simp_all

lemma response_headers_append [simp]:
  "response_headers (xs @ ys) = response_headers xs @ response_headers ys"
  by (induction xs rule: response_headers.induct) simp_all

lemma status_codes_append [simp]: "status_codes (xs @ ys) = status_codes xs @ status_codes ys"
  by (induction xs rule: status_codes.induct) simp_all

lemma response_status_append [simp]:
  "response_status (xs @ ys) = response_status xs @ response_status ys"
  by (induction xs rule: response_status.induct) simp_all

lemma response_body_append [simp]:
  "response_body (xs @ ys) = response_body xs @ response_body ys"
  by (induction xs rule: response_body.induct) simp_all




subsection \<open>The header primitives\<close>

text \<open>
  Each primitive has two regimes: with a request version other than \<^verbatim>\<open>HTTP/0.9\<close>
  it extends the headers buffer or writes it out; with \<^verbatim>\<open>HTTP/0.9\<close> it leaves
  buffer and output alone.
\<close>

lemma send_header_eq:
  "request_version h \<noteq> ''HTTP/0.9'' \<Longrightarrow>
   send_header k v h = h\<lparr>headers_buffer := headers_buffer h @ [HeaderLine k v]\<rparr>"
  by (simp add: send_header_def)

lemma send_header_09: "request_version h = ''HTTP/0.9'' \<Longrightarrow> send_header k v h = h"
  by (simp add: send_header_def)

lemma send_response_eq:
  "request_version h \<noteq> ''HTTP/0.9'' \<Longrightarrow>
   send_response e code m h =
     h\<lparr>log_lines := log_lines h @ [LogRequest (requestline h) code],
       headers_buffer := headers_buffer h @
         [StatusLine protocol_version code (status_message e code m),
          HeaderLine ''Server'' (version_string e),
          HeaderLine ''Date'' (date_time_string e None)]\<rparr>"
  by (simp add: send_response_def send_header_def send_response_only_def log_request_def Let_def
      status_message_def)

lemma send_response_09:
  "request_version h = ''HTTP/0.9'' \<Longrightarrow>
   send_response e code m h = h\<lparr>log_lines := log_lines h @ [LogRequest (requestline h) code]\<rparr>"
  by (simp add: send_response_def send_header_def send_response_only_def log_request_def Let_def)

lemma CORS_end_headers_eq:
  "request_version h \<noteq> ''HTTP/0.9'' \<Longrightarrow>
   CORS_end_headers h =
     h\<lparr>wfile := wfile h @ [HeaderBlock (headers_buffer h @
          [HeaderLine ''Access-Control-Allow-Origin'' ''*'',
           HeaderLine ''Access-Control-Allow-Methods'' ''GET, POST, PUT, DELETE, OPTIONS'',
           HeaderLine ''Access-Control-Allow-Headers'' ''Content-Type, Authorization'',
           BlankLine])],
       headers_buffer := []\<rparr>"
  by (simp add: CORS_end_headers_def send_header_def super_end_headers_def flush_headers_def)

lemma super_end_headers_eq:
  "request_version h \<noteq> ''HTTP/0.9'' \<Longrightarrow>
   super_end_headers h =
     h\<lparr>wfile := wfile h @ [HeaderBlock (headers_buffer h @ [BlankLine])], headers_buffer := []\<rparr>"
  by (simp add: super_end_headers_def flush_headers_def)

lemma end_headers_09: "request_version h = ''HTTP/0.9'' \<Longrightarrow> end_headers c h = h"
  by (cases c) (simp_all add: CORS_end_headers_def send_header_def super_end_headers_def)

lemma CORS_end_headers_09: "request_version h = ''HTTP/0.9'' \<Longrightarrow> CORS_end_headers h = h"
  by (simp_all add: CORS_end_headers_def send_header_def super_end_headers_def)

lemma super_end_headers_09: "request_version h = ''HTTP/0.9'' \<Longrightarrow> super_end_headers h = h"
  by (simp_all add: CORS_end_headers_def send_header_def super_end_headers_def)

subsection \<open>Error responses\<close>


lemma send_error_version [simp]:
  "request_version (send_error c e code m x h) = request_version h"
  apply (cases "request_version h = ''HTTP/0.9''")
   apply (simp add: send_error_def Let_def send_response_09 send_header_09 end_headers_09
      log_error_def split: option.splits prod.splits)
  apply (cases c)
  apply (simp_all add: send_error_def Let_def send_response_eq send_header_eq CORS_end_headers_eq super_end_headers_eq
      log_error_def split: option.splits prod.splits)
  done


subsection \<open>The loop over the index pages\<close>

text \<open>The loop only consults the file system: it changes \<open>fs_trace\<close> and nothing else.\<close>

lemma find_index_frame:
  "snd (find_index e p is h) = h\<lparr>fs_trace := fs_trace (snd (find_index e p is h))\<rparr>"
proof (induction "is" arbitrary: h)
  case Nil
  show ?case by simp
next
  case (Cons i "is")
  show ?case
  proof (cases "os_path_isfile e (os_path_join p i)")
    case True
    then show ?thesis by (simp add: Let_def)
  next
    case False
    let ?h1 = "h\<lparr>fs_trace := fs_trace h @ [IsFile (os_path_join p i)]\<rparr>"
    have "snd (find_index e p is ?h1) = ?h1\<lparr>fs_trace := fs_trace (snd (find_index e p is ?h1))\<rparr>"
      by (rule Cons.IH)
    then have "snd (find_index e p is ?h1) = h\<lparr>fs_trace := fs_trace (snd (find_index e p is ?h1))\<rparr>"
      by simp
    with False show ?thesis by (simp add: Let_def)
  qed
qed

lemma find_index_fields [simp]:
  "wfile (snd (find_index e p is h)) = wfile h"
  "request_version (snd (find_index e p is h)) = request_version h"
  "headers_buffer (snd (find_index e p is h)) = headers_buffer h"
  "headers (snd (find_index e p is h)) = headers h"
  "command (snd (find_index e p is h)) = command h"
  "path (snd (find_index e p is h)) = path h"
  "requestline (snd (find_index e p is h)) = requestline h"
  "log_lines (snd (find_index e p is h)) = log_lines h"
  by (subst find_index_frame, simp)+

subsection \<open>The CORS headers on the responses of the file-serving methods\<close>






lemma do_OPTIONS_eq:
  "request_version h \<noteq> ''HTTP/0.9'' \<Longrightarrow>
   do_OPTIONS e h =
     h\<lparr>log_lines := log_lines h @ [LogRequest (requestline h) 200],
       wfile := wfile h @ [HeaderBlock (headers_buffer h @
         [StatusLine protocol_version 200 (status_message e 200 None),
          HeaderLine ''Server'' (version_string e),
          HeaderLine ''Date'' (date_time_string e None),
          HeaderLine ''Access-Control-Allow-Origin'' ''*'',
          HeaderLine ''Access-Control-Allow-Methods'' ''GET, POST, PUT, DELETE, OPTIONS'',
          HeaderLine ''Access-Control-Allow-Headers'' ''Content-Type, Authorization'',
          BlankLine])],
       headers_buffer := []\<rparr>"
  by (simp add: do_OPTIONS_def send_response_eq CORS_end_headers_eq)

lemma do_OPTIONS_09:
  "request_version h = ''HTTP/0.9'' \<Longrightarrow>
   do_OPTIONS e h = h\<lparr>log_lines := log_lines h @ [LogRequest (requestline h) 200]\<rparr>"
  by (simp add: do_OPTIONS_def send_response_09 CORS_end_headers_09)


lemma parse_request_True:
  "parse_request c e req h = (True, h1) \<Longrightarrow>
   wfile h1 = wfile h \<and> headers_buffer h1 = headers_buffer h \<and> fs_trace h1 = fs_trace h
   \<and> log_lines h1 = log_lines h \<and> command h1 \<noteq> None"
  by (auto simp: parse_request_def Let_def split: if_splits option.splits prod.splits
      header_parse.splits bool.splits)


subsection \<open>No method changes the request version\<close>

lemma prim_version [simp]:
  "request_version (send_header k v h) = request_version h"
  "request_version (send_response e code m h) = request_version h"
  "request_version (super_end_headers h) = request_version h"
  "request_version (CORS_end_headers h) = request_version h"
  "request_version (end_headers c h) = request_version h"
  "request_version (copyfile f h) = request_version h"
  by (cases c; simp add: send_header_def send_response_def send_response_only_def log_request_def
      super_end_headers_def CORS_end_headers_def flush_headers_def copyfile_def Let_def)+

lemma list_directory_version [simp]:
  "request_version (snd (list_directory c e p h)) = request_version h"
  by (simp add: list_directory_def Let_def split: option.splits)

lemma send_file_head_version [simp]:
  "request_version (snd (send_file_head c e p h)) = request_version h"
  by (simp add: send_file_head_def Let_def split: option.splits)

lemma send_head_version [simp]:
  "request_version (snd (send_head c e h)) = request_version h"
proof -
  let ?p = "translate_path e (path h)"
  let ?h1 = "h\<lparr>fs_trace := fs_trace h @ [IsDir ?p]\<rparr>"
  obtain r h2 where fi: "find_index e ?p index_pages ?h1 = (r, h2)"
    by (cases "find_index e ?p index_pages ?h1")
  have "request_version h2 = request_version h"
    using find_index_fields(2) [of e ?p index_pages ?h1] fi by simp
  then show ?thesis
    using fi by (simp add: send_head_def Let_def split: option.splits)
qed

lemma do_version [simp]:
  "request_version (do_GET c e h) = request_version h"
  "request_version (do_HEAD c e h) = request_version h"
  "request_version (do_OPTIONS e h) = request_version h"
  using send_head_version [of c e h]
  by (cases "send_head c e h"; simp add: do_GET_def do_HEAD_def do_OPTIONS_def split: option.splits)+

lemma dispatch_version [simp]: "request_version (dispatch c e h) = request_version h"
  by (simp add: dispatch_def Let_def call_method_def split: option.splits)

subsection \<open>HTTP/0.9: body bytes only\<close>






text \<open>
  The version in force is decided by the request line alone: the response to
  \<^verbatim>\<open>GET / HTTP/1.1\<close> is written under \<^verbatim>\<open>HTTP/1.1\<close>, the responses to \<^verbatim>\<open>GET /\<close>
  and to \<^verbatim>\<open>GET / HTTP/2.0\<close> under \<^verbatim>\<open>HTTP/0.9\<close>.
\<close>

lemma parse_request_version:
  "request_version (snd (parse_request c e req h)) = answered_version req"
  by (simp add: parse_request_def answered_version_def Let_def
      split: option.splits prod.splits header_parse.splits)

lemma respond_version:
  "request_version (respond c e (Line req)) = answered_version req"
  using parse_request_version [of c e req new_handler]
  by (cases "parse_request c e req new_handler")
     (simp add: respond_def handle_one_request_def split: bool.splits)

lemma answered_version_examples:
  "answered_version (demo_line ''GET / HTTP/1.1'') = ''HTTP/1.1''"
  "answered_version (demo_line ''GET /'') = ''HTTP/0.9''"
  "answered_version (demo_line ''GET / HTTP/2.0'') = ''HTTP/0.9''"
  by code_simp+

subsection \<open>The CORS handler against the plain handler\<close>

text \<open>
  \<open>plain\<close> commutes with every method: running a method of the CORS handler and
  then removing the CORS lines is running the same method of
  \<^verbatim>\<open>SimpleHTTPRequestHandler\<close> on the state without them. The header lines the
  library sends itself are never CORS lines.
\<close>

lemma plain_fields [simp]:
  "request_version (plain h) = request_version h"
  "command (plain h) = command h"
  "path (plain h) = path h"
  "headers (plain h) = headers h"
  "requestline (plain h) = requestline h"
  "fs_trace (plain h) = fs_trace h"
  "log_lines (plain h) = log_lines h"
  "wfile (plain h) = map strip_cors (wfile h)"
  "headers_buffer (plain h) = filter (\<lambda>l. \<not> is_cors_line l) (headers_buffer h)"
  by (simp_all add: plain_def)

lemma plain_update [simp]:
  "plain (h\<lparr>fs_trace := t\<rparr>) = (plain h)\<lparr>fs_trace := t\<rparr>"
  "plain (h\<lparr>log_lines := l\<rparr>) = (plain h)\<lparr>log_lines := l\<rparr>"
  "plain (h\<lparr>command := cm\<rparr>) = (plain h)\<lparr>command := cm\<rparr>"
  "plain (h\<lparr>path := pa\<rparr>) = (plain h)\<lparr>path := pa\<rparr>"
  "plain (h\<lparr>headers := hs\<rparr>) = (plain h)\<lparr>headers := hs\<rparr>"
  "plain (h\<lparr>request_version := v\<rparr>) = (plain h)\<lparr>request_version := v\<rparr>"
  "plain (h\<lparr>requestline := rl\<rparr>) = (plain h)\<lparr>requestline := rl\<rparr>"
  by (simp_all add: plain_def)





lemma end_headers_command [simp]: "command (end_headers c h) = command h"
  by (cases c) (simp_all add: CORS_end_headers_def super_end_headers_def send_header_def
      flush_headers_def)

lemma prim_command [simp]:
  "command (send_header k v h) = command h"
  "command (send_response e code m h) = command h"
  "command (log_error code msg h) = command h"
  "command (copyfile f h) = command h"
  by (simp_all add: send_header_def send_response_def send_response_only_def log_request_def
      log_error_def copyfile_def Let_def)












subsection \<open>No method changes the command\<close>

lemma send_error_command [simp]: "command (send_error c e code m x h) = command h"
proof -
  obtain shortmsg longmsg where
    r: "(case responses e code of Some sl \<Rightarrow> sl | None \<Rightarrow> (''???'', ''???'')) = (shortmsg, longmsg)"
    by (cases "case responses e code of Some sl \<Rightarrow> sl | None \<Rightarrow> (''???'', ''???'')")
  show ?thesis
    unfolding send_error_def Let_def r
    by (cases "code \<ge> 200 \<and> code \<notin> {204, 205, 304}") (simp_all del: end_headers.simps)
qed

lemma list_directory_command [simp]:
  "command (snd (list_directory c e p h)) = command h"
  by (simp add: list_directory_def Let_def del: end_headers.simps split: option.splits)

lemma send_file_head_command [simp]:
  "command (snd (send_file_head c e p h)) = command h"
  by (simp add: send_file_head_def Let_def del: end_headers.simps split: option.splits)

lemma send_head_command [simp]:
  "command (snd (send_head c e h)) = command h"
proof -
  let ?p = "translate_path e (path h)"
  let ?h1 = "h\<lparr>fs_trace := fs_trace h @ [IsDir ?p]\<rparr>"
  obtain r h2 where fi: "find_index e ?p index_pages ?h1 = (r, h2)"
    by (cases "find_index e ?p index_pages ?h1")
  have "command h2 = command h"
    using find_index_fields(5) [of e ?p index_pages ?h1] fi by simp
  then show ?thesis
    using fi by (simp add: send_head_def Let_def del: end_headers.simps split: option.splits)
qed

lemma do_command [simp]:
  "command (do_GET c e h) = command h"
  "command (do_HEAD c e h) = command h"
  "command (do_OPTIONS e h) = command h"
  using send_head_command [of c e h]
  by (cases "send_head c e h"; simp add: do_GET_def do_HEAD_def do_OPTIONS_def
      del: end_headers.simps split: option.splits)+

lemma dispatch_command [simp]: "command (dispatch c e h) = command h"
  by (simp add: dispatch_def Let_def call_method_def split: option.splits)

lemma plain_new_handler [simp]: "plain new_handler = new_handler"
  by (simp add: plain_def new_handler_def)


subsection \<open>Accepted OPTIONS and GET requests\<close>

lemma respond_OPTIONS:
  assumes "parse_request CORSHTTPRequestHandler e req new_handler = (True, h1)"
    and "command h1 = Some ''OPTIONS''"
  shows "respond CORSHTTPRequestHandler e (Line req) = do_OPTIONS e h1"
  using assms
  by (simp add: respond_def handle_one_request_def dispatch_def has_method_def call_method_def)






subsection \<open>Startup and the accept loop\<close>

lemma cert_paths [simp]:
  "os_path_join ''ssl'' ''server.crt'' = ''ssl/server.crt''"
  "os_path_join ''ssl'' ''server.key'' = ''ssl/server.key''"
  by (simp_all add: os_path_join_def startswith_def endswith_def)

lemma str_nat_3000 [simp]: "str_nat 3000 = ''3000''"
  by code_simp

lemma serve_loop_interrupt:
  "\<not> shutdown_request s \<Longrightarrow> Interrupt \<in> set evs \<Longrightarrow>
   serve_loop e evs s =
     (Raised KeyboardInterrupt,
      s\<lparr>served := served s @ responses_until_interrupt (RequestHandlerClass s) e evs\<rparr>)"
proof (induction evs arbitrary: s)
  case Nil
  then show ?case by simp
next
  case (Cons ev evs)
  show ?case
  proof (cases ev)
    case (Connection raw)
    let ?s = "s\<lparr>served := served s @ [wfile (respond (RequestHandlerClass s) e raw)]\<rparr>"
    from Cons.prems Connection have "Interrupt \<in> set evs" by simp
    moreover from Cons.prems have "\<not> shutdown_request ?s" by simp
    ultimately have "serve_loop e evs ?s =
      (Raised KeyboardInterrupt,
       ?s\<lparr>served := served ?s @ responses_until_interrupt (RequestHandlerClass ?s) e evs\<rparr>)"
      by (rule Cons.IH [rotated])
    with Cons.prems Connection show ?thesis by simp
  next
    case Interrupt
    with Cons.prems show ?thesis by simp
  qed
qed

lemma main_interrupt:
  assumes "path_exists w ''ssl/server.crt''" "path_exists w ''ssl/server.key''"
    and "bind_error w ([], 3000) = None"
    and "load_error w ''ssl/server.crt'' ''ssl/server.key'' = None"
    and "Interrupt \<in> set (events w)"
  shows "main w =
    (\<lparr>stdout = [''HTTPS server starting on https://localhost:3000/'',
         ''Note: Your browser will show a security warning for the self-signed certificate.'',
         ''Click 'Advanced' then 'Proceed to localhost (unsafe)' to continue.'',
         ''Press Ctrl+C to stop the server'',
         CHR 0x0A # ''Server stopped''],
       httpd = Some \<lparr>server_address = ([], 3000), RequestHandlerClass = CORSHTTPRequestHandler,
         socket = SSLSocket \<lparr>protocol = PROTOCOL_TLS_SERVER,
                    cert_chain = Some (''ssl/server.crt'', ''ssl/server.key'')\<rparr> True,
         socket_closed = False, shutdown_request = True, is_shut_down = True,
         served = responses_until_interrupt CORSHTTPRequestHandler (environ w) (events w)\<rparr>,
       context' = Some \<lparr>protocol = PROTOCOL_TLS_SERVER,
                    cert_chain = Some (''ssl/server.crt'', ''ssl/server.key'')\<rparr>\<rparr>,
     Exit 0)"
  using assms
  by (simp add: main_def Let_def HTTPServer_def load_cert_chain_def SSLContext_def wrap_socket_def
      serve_forever_def serve_loop_interrupt shutdown_def)

lemma serve_loop_frame:
  "server_address (snd (serve_loop e evs s)) = server_address s
   \<and> socket (snd (serve_loop e evs s)) = socket s
   \<and> socket_closed (snd (serve_loop e evs s)) = socket_closed s"
  by (induction evs arbitrary: s) (simp_all split: event.splits)

lemma serve_forever_frame:
  "server_address (snd (serve_forever e evs s)) = server_address s
   \<and> socket (snd (serve_forever e evs s)) = socket s
   \<and> socket_closed (snd (serve_forever e evs s)) = socket_closed s"
  using serve_loop_frame [of e evs "s\<lparr>is_shut_down := False\<rparr>"]
  by (cases "serve_loop e evs (s\<lparr>is_shut_down := False\<rparr>)")
     (simp add: serve_forever_def split: loop_end.splits)

lemma shutdown_frame:
  "shutdown s = Some s' \<Longrightarrow>
   server_address s' = server_address s \<and> socket s' = socket s \<and> socket_closed s' = socket_closed s"
  by (auto simp: shutdown_def Let_def split: if_splits)

lemma main_started:
  assumes "path_exists w ''ssl/server.crt''" "path_exists w ''ssl/server.key''"
    and "bind_error w ([], 3000) = None"
    and "load_error w ''ssl/server.crt'' ''ssl/server.key'' = None"
  shows "\<exists>rest s. stdout (fst (main w)) =
           ''HTTPS server starting on https://localhost:3000/'' # rest
         \<and> httpd (fst (main w)) = Some s
         \<and> server_address s = ([], 3000)
         \<and> socket s = SSLSocket \<lparr>protocol = PROTOCOL_TLS_SERVER,
                          cert_chain = Some (''ssl/server.crt'', ''ssl/server.key'')\<rparr> True
         \<and> \<not> socket_closed s"
proof -
  let ?s1 = "\<lparr>server_address = ([], 3000), RequestHandlerClass = CORSHTTPRequestHandler,
       socket = SSLSocket \<lparr>protocol = PROTOCOL_TLS_SERVER,
                    cert_chain = Some (''ssl/server.crt'', ''ssl/server.key'')\<rparr> True,
       socket_closed = False, shutdown_request = False, is_shut_down = False, served = []\<rparr>"
  obtain r s2 where sf: "serve_forever (environ w) (events w) ?s1 = (r, s2)"
    by (cases "serve_forever (environ w) (events w) ?s1")
  from serve_forever_frame [of "environ w" "events w" ?s1] sf
  have s2: "server_address s2 = ([], 3000)"
    "socket s2 = SSLSocket \<lparr>protocol = PROTOCOL_TLS_SERVER,
                    cert_chain = Some (''ssl/server.crt'', ''ssl/server.key'')\<rparr> True"
    "\<not> socket_closed s2"
    by simp_all
  show ?thesis
    using assms sf s2 shutdown_frame [of s2]
    by (auto simp: main_def Let_def HTTPServer_def load_cert_chain_def SSLContext_def
        wrap_socket_def split: loop_end.splits exn.splits option.splits)
qed

lemma contains_banner:
  "contains ''HTTPS server starting on https://localhost:3000/'' ''https://localhost:3000/''"
  by (simp add: startswith_def)

section \<open>The claims\<close>

subsection \<open>C1: the CORS headers on every response\<close>




subsection \<open>C2: the headers of an OPTIONS response\<close>

text \<open>
  Claim C2 says that the headers of the response to an OPTIONS request are
  exactly the three CORS headers. \<^verbatim>\<open>do_OPTIONS\<close> calls \<^verbatim>\<open>self.send_response(200)\<close>,
  which also sends \<^verbatim>\<open>Server\<close> and \<^verbatim>\<open>Date\<close>: the response to
  \<^verbatim>\<open>OPTIONS / HTTP/1.1\<close> has five header fields. (And the response to
  \<^verbatim>\<open>OPTIONS / HTTP/0.9\<close> has none.)
\<close>

theorem C2_counterexample:
  "response_headers
     (wfile (respond CORSHTTPRequestHandler demo_env (demo_request ''OPTIONS / HTTP/1.1'')))
   = [(''Server'', ''SimpleHTTP/0.6 Python/3.12.3''),
      (''Date'', ''Thu, 01 Jan 1970 00:00:00 GMT''),
      (''Access-Control-Allow-Origin'', ''*''),
      (''Access-Control-Allow-Methods'', ''GET, POST, PUT, DELETE, OPTIONS''),
      (''Access-Control-Allow-Headers'', ''Content-Type, Authorization'')]
   \<and> response_headers
     (wfile (respond CORSHTTPRequestHandler demo_env (demo_request ''OPTIONS / HTTP/1.1'')))
   \<noteq> cors_headers
   \<and> response_headers
     (wfile (respond CORSHTTPRequestHandler demo_env (demo_request ''OPTIONS / HTTP/0.9'')))
   = []"
  by code_simp

text \<open>
  C2 as amended: for every request that \<^verbatim>\<open>parse_request\<close> accepts with the method
  OPTIONS, for any path, the header fields of the response are \<^verbatim>\<open>Server\<close> and
  \<^verbatim>\<open>Date\<close> followed by exactly the three CORS headers, and no others; only a
  request whose version is \<^verbatim>\<open>HTTP/0.9\<close> gets no header at all.
\<close>

theorem C2_options_headers:
  assumes "parse_request CORSHTTPRequestHandler e req new_handler = (True, h)"
    and "command h = Some ''OPTIONS''"
  shows "response_headers (wfile (respond CORSHTTPRequestHandler e (Line req))) =
           (if request_version h = ''HTTP/0.9'' then []
            else [(''Server'', version_string e), (''Date'', date_time_string e None)]
                 @ cors_headers)"
proof -
  from parse_request_True [OF assms(1)]
  have h: "wfile h = []" "headers_buffer h = []" by (simp_all add: new_handler_def)
  show ?thesis
    by (cases "request_version h = ''HTTP/0.9''")
       (simp_all add: respond_OPTIONS [OF assms] do_OPTIONS_eq do_OPTIONS_09 h cors_headers_def)
qed

theorem C2_witness:
  "fst (parse_request CORSHTTPRequestHandler demo_env (demo_line ''OPTIONS /api HTTP/1.0'') new_handler)
   \<and> command (snd (parse_request CORSHTTPRequestHandler demo_env
        (demo_line ''OPTIONS /api HTTP/1.0'') new_handler)) = Some ''OPTIONS''
   \<and> response_headers (wfile (respond CORSHTTPRequestHandler demo_env
        (Line (demo_line ''OPTIONS /api HTTP/1.0''))))
     = [(''Server'', version_string demo_env), (''Date'', date_time_string demo_env None)]
       @ cors_headers"
proof -
  let ?p = "parse_request CORSHTTPRequestHandler demo_env (demo_line ''OPTIONS /api HTTP/1.0'')
    new_handler"
  have f: "fst ?p" by code_simp
  then have p: "?p = (True, snd ?p)" by (simp add: prod_eq_iff)
  have c: "command (snd ?p) = Some ''OPTIONS''" by code_simp
  have v: "request_version (snd ?p) \<noteq> ''HTTP/0.9''" by code_simp
  from C2_options_headers [OF p c] v f c show ?thesis by simp
qed

subsection \<open>C3: status, body and file-system access of an OPTIONS response\<close>

text \<open>
  Claim C3 says that every OPTIONS request, for any path, is answered with
  status 200 and an empty body, without file-system access. The body is always
  empty and the file system is never touched, but a status line is written
  only when the request version is not \<^verbatim>\<open>HTTP/0.9\<close>: \<^verbatim>\<open>parse_request\<close> accepts the
  line \<^verbatim>\<open>OPTIONS /x HTTP/0.9\<close> (three words, version 0.9), and
  \<^verbatim>\<open>send_response_only\<close> then writes nothing, so the response is empty.
\<close>

theorem C3_counterexample:
  "command (respond CORSHTTPRequestHandler demo_env (demo_request ''OPTIONS /x HTTP/0.9''))
     = Some ''OPTIONS''
   \<and> wfile (respond CORSHTTPRequestHandler demo_env (demo_request ''OPTIONS /x HTTP/0.9'')) = []
   \<and> response_status
        (wfile (respond CORSHTTPRequestHandler demo_env (demo_request ''OPTIONS /x HTTP/0.9'')))
       \<noteq> [200]"
  by code_simp

text \<open>
  C3 as amended: for every request that \<^verbatim>\<open>parse_request\<close> accepts with the method
  OPTIONS, for any path (whether or not it resolves to a file), the handler
  makes no file-system call, writes no body and logs the response code 200;
  the status line with code 200 is written when the request version is not
  \<^verbatim>\<open>HTTP/0.9\<close>, and nothing at all is written when it is.
\<close>

theorem C3_options_status_body_fs:
  assumes "parse_request CORSHTTPRequestHandler e req new_handler = (True, h)"
    and "command h = Some ''OPTIONS''"
  shows "fs_trace (respond CORSHTTPRequestHandler e (Line req)) = []
       \<and> response_body (wfile (respond CORSHTTPRequestHandler e (Line req))) = []
       \<and> log_lines (respond CORSHTTPRequestHandler e (Line req)) = [LogRequest (requestline h) 200]
       \<and> (request_version h \<noteq> ''HTTP/0.9'' \<longrightarrow>
            response_status (wfile (respond CORSHTTPRequestHandler e (Line req))) = [200])
       \<and> (request_version h = ''HTTP/0.9'' \<longrightarrow>
            wfile (respond CORSHTTPRequestHandler e (Line req)) = [])"
proof -
  from parse_request_True [OF assms(1)]
  have h: "wfile h = []" "headers_buffer h = []" "fs_trace h = []" "log_lines h = []"
    by (simp_all add: new_handler_def)
  show ?thesis
    by (cases "request_version h = ''HTTP/0.9''")
       (simp_all add: respond_OPTIONS [OF assms] do_OPTIONS_eq do_OPTIONS_09 h)
qed

theorem C3_witness:
  "fst (parse_request CORSHTTPRequestHandler demo_env (demo_line ''OPTIONS /missing HTTP/1.1'')
        new_handler)
   \<and> command (snd (parse_request CORSHTTPRequestHandler demo_env
        (demo_line ''OPTIONS /missing HTTP/1.1'') new_handler)) = Some ''OPTIONS''
   \<and> request_version (snd (parse_request CORSHTTPRequestHandler demo_env
        (demo_line ''OPTIONS /missing HTTP/1.1'') new_handler)) \<noteq> ''HTTP/0.9''
   \<and> fs_trace (respond CORSHTTPRequestHandler demo_env
        (Line (demo_line ''OPTIONS /missing HTTP/1.1''))) = []
   \<and> response_body (wfile (respond CORSHTTPRequestHandler demo_env
        (Line (demo_line ''OPTIONS /missing HTTP/1.1'')))) = []
   \<and> response_status (wfile (respond CORSHTTPRequestHandler demo_env
        (Line (demo_line ''OPTIONS /missing HTTP/1.1'')))) = [200]"
proof -
  let ?p = "parse_request CORSHTTPRequestHandler demo_env (demo_line ''OPTIONS /missing HTTP/1.1'')
    new_handler"
  have f: "fst ?p" by code_simp
  then have p: "?p = (True, snd ?p)" by (simp add: prod_eq_iff)
  have c: "command (snd ?p) = Some ''OPTIONS''" by code_simp
  have v: "request_version (snd ?p) \<noteq> ''HTTP/0.9''" by code_simp
  from C3_options_status_body_fs [OF p c] v f c show ?thesis by simp
qed

subsection \<open>C4: missing certificate files\<close>

text \<open>
  Claim C4: if \<^verbatim>\<open>ssl/server.crt\<close> or \<^verbatim>\<open>ssl/server.key\<close> does not exist at startup,
  the process prints its two lines of guidance and exits with status 1 without
  ever creating the server object, which is what creates, binds and listens on
  the socket; the listener exists only when both files exist.
\<close>

theorem C4_missing_certificate_exits_before_bind:
  "(\<not> path_exists w ''ssl/server.crt'' \<or> \<not> path_exists w ''ssl/server.key'' \<longrightarrow>
      main w = (\<lparr>stdout = [''SSL certificates not found!'',
                   ''Please run ./generate-ssl.sh first to create SSL certificates.''],
                 httpd = None, context' = None\<rparr>, Exit 1))
   \<and> (httpd (fst (main w)) \<noteq> None \<longrightarrow>
        path_exists w ''ssl/server.crt'' \<and> path_exists w ''ssl/server.key'')"
  by (auto simp: main_def Let_def)

theorem C4_witness:
  "\<not> path_exists no_key_world ''ssl/server.key''
   \<and> main no_key_world =
       (\<lparr>stdout = [''SSL certificates not found!'',
                   ''Please run ./generate-ssl.sh first to create SSL certificates.''],
          httpd = None, context' = None\<rparr>, Exit 1)
   \<and> httpd (fst (main demo_world)) \<noteq> None
   \<and> path_exists demo_world ''ssl/server.crt'' \<and> path_exists demo_world ''ssl/server.key''"
proof -
  have k: "\<not> path_exists no_key_world ''ssl/server.key''"
    by (simp add: no_key_world_def demo_world_def)
  have d: "httpd (fst (main demo_world)) \<noteq> None"
    by code_simp
  from C4_missing_certificate_exits_before_bind [of no_key_world]
    C4_missing_certificate_exits_before_bind [of demo_world] k d
  show ?thesis by blast
qed

subsection \<open>C5: every other method goes to the inherited file serving\<close>




subsection \<open>C6: the operator's interrupt\<close>

text \<open>
  Claim C6: when Ctrl+C arrives while the accept loop is running (the server
  has started: both files exist, the address could be bound, the certificate
  chain loaded), the process prints the shutdown notice, serves none of the
  connections that arrive after the interrupt, and ends with exit status 0:
  \<^verbatim>\<open>httpd.shutdown()\<close> returns, because the \<^verbatim>\<open>finally\<close> clause of
  \<^verbatim>\<open>serve_forever\<close> has already set the event it waits for.
\<close>

theorem C6_interrupt_shuts_down:
  assumes "path_exists w ''ssl/server.crt''" and "path_exists w ''ssl/server.key''"
    and "bind_error w ([], 3000) = None"
    and "load_error w ''ssl/server.crt'' ''ssl/server.key'' = None"
    and "Interrupt \<in> set (events w)"
  shows "snd (main w) = Exit 0
       \<and> last (stdout (fst (main w))) = CHR 0x0A # ''Server stopped''
       \<and> map_option served (httpd (fst (main w)))
           = Some (responses_until_interrupt CORSHTTPRequestHandler (environ w) (events w))"
  by (simp add: main_interrupt [OF assms])

theorem C6_witness:
  "Interrupt \<in> set (events demo_world)
   \<and> snd (main demo_world) = Exit 0
   \<and> last (stdout (fst (main demo_world))) = CHR 0x0A # ''Server stopped''
   \<and> map_option (\<lambda>s. length (served s)) (httpd (fst (main demo_world))) = Some 1"
proof -
  have a: "path_exists demo_world ''ssl/server.crt''" "path_exists demo_world ''ssl/server.key''"
    "bind_error demo_world ([], 3000) = None"
    "load_error demo_world ''ssl/server.crt'' ''ssl/server.key'' = None"
    "Interrupt \<in> set (events demo_world)"
    by (simp_all add: demo_world_def)
  have l: "length (responses_until_interrupt CORSHTTPRequestHandler (environ demo_world)
      (events demo_world)) = 1"
    by (simp add: demo_world_def)
  from C6_interrupt_shuts_down [OF a] a(5) l show ?thesis
    by (cases "httpd (fst (main demo_world))") auto
qed

subsection \<open>C7: what the shutdown path releases\<close>




subsection \<open>C9: the banner and the port\<close>

text \<open>
  Claim C9: after a successful startup (both files exist, the address could be
  bound, the certificate chain loaded) a printed line contains the literal
  string \<^verbatim>\<open>https://localhost:3000/\<close>, and the server listens on port 3000.
\<close>

theorem C9_banner_and_port:
  assumes "path_exists w ''ssl/server.crt''" and "path_exists w ''ssl/server.key''"
    and "bind_error w ([], 3000) = None"
    and "load_error w ''ssl/server.crt'' ''ssl/server.key'' = None"
  shows "list_ex (\<lambda>line. contains line ''https://localhost:3000/'') (stdout (fst (main w)))
       \<and> map_option server_address (httpd (fst (main w))) = Some ([], 3000)"
  using main_started [OF assms] contains_banner by auto

theorem C9_witness:
  "path_exists demo_world ''ssl/server.crt'' \<and> path_exists demo_world ''ssl/server.key''
   \<and> list_ex (\<lambda>line. contains line ''https://localhost:3000/'') (stdout (fst (main demo_world)))
   \<and> map_option server_address (httpd (fst (main demo_world))) = Some ([], 3000)"
proof -
  have a: "path_exists demo_world ''ssl/server.crt''" "path_exists demo_world ''ssl/server.key''"
    "bind_error demo_world ([], 3000) = None"
    "load_error demo_world ''ssl/server.crt'' ''ssl/server.key'' = None"
    by (simp_all add: demo_world_def)
  from C9_banner_and_port [OF a] a show ?thesis by simp
qed

subsection \<open>C10: certificate files that exist but do not load\<close>

text \<open>
  Claim C10: the startup check looks only at the existence of the two files.
  When both exist but \<^verbatim>\<open>load_cert_chain\<close> raises (a malformed or unreadable
  file), nothing has been printed, the process ends with the traceback of an
  uncaught exception and not through the guided \<^verbatim>\<open>sys.exit(1)\<close>, and, the address
  having been bound by the constructor before the load, the exception is the
  one of \<^verbatim>\<open>load_cert_chain\<close> and the server object holds the open socket bound to
  port 3000.
\<close>

theorem C10_unloadable_certificate_after_bind:
  assumes "path_exists w ''ssl/server.crt''" and "path_exists w ''ssl/server.key''"
    and "load_error w ''ssl/server.crt'' ''ssl/server.key'' = Some x"
  shows "stdout (fst (main w)) = []
       \<and> (\<exists>y. snd (main w) = Traceback y)
       \<and> (bind_error w ([], 3000) = None \<longrightarrow>
            snd (main w) = Traceback x
            \<and> httpd (fst (main w)) =
                Some \<lparr>server_address = ([], 3000), RequestHandlerClass = CORSHTTPRequestHandler,
                      socket = PlainSocket, socket_closed = False, shutdown_request = False,
                      is_shut_down = False, served = []\<rparr>)"
  using assms
  by (auto simp: main_def Let_def HTTPServer_def load_cert_chain_def SSLContext_def
      split: option.splits)

theorem C10_witness:
  "path_exists bad_key_world ''ssl/server.key''
   \<and> load_error bad_key_world ''ssl/server.crt'' ''ssl/server.key'' = Some SSLError
   \<and> stdout (fst (main bad_key_world)) = []
   \<and> snd (main bad_key_world) = Traceback SSLError
   \<and> map_option server_address (httpd (fst (main bad_key_world))) = Some ([], 3000)
   \<and> map_option socket_closed (httpd (fst (main bad_key_world))) = Some False"
proof -
  have a: "path_exists bad_key_world ''ssl/server.crt''" "path_exists bad_key_world ''ssl/server.key''"
    "load_error bad_key_world ''ssl/server.crt'' ''ssl/server.key'' = Some SSLError"
    by (simp_all add: bad_key_world_def demo_world_def)
  have b: "bind_error bad_key_world ([], 3000) = None"
    by (simp add: bad_key_world_def demo_world_def)
  from C10_unloadable_certificate_after_bind [OF a] a b show ?thesis by simp
qed

end
